theory Spec2Isabelle
  imports Main
begin

unbundle bit_operations_syntax

section \<open>Python values\<close>

text \<open>
  The program is \<^verbatim>\<open>src/client_mining_p/blockchain.py\<close>. Its blocks are Python dicts, its
  requests are parsed JSON, and both hashing and proof validation work on the text that
  \<^verbatim>\<open>json.dumps\<close> and string formatting produce. The values that can occur are therefore
  the JSON values.

  A Python \<^verbatim>\<open>str\<close> is modelled as a \<^typ>\<open>string\<close>, each \<^typ>\<open>char\<close> standing for the code
  point of the same number (0 to 255). A Python \<^verbatim>\<open>float\<close> is identified by the text
  \<^verbatim>\<open>float.__repr__\<close> gives it, which is what both \<^verbatim>\<open>json.dumps\<close> and \<^verbatim>\<open>str\<close> print for a
  finite float; the three non-finite floats are printed differently by the two and are
  kept apart. A dict is the list of its items in insertion order, which is the order
  \<^verbatim>\<open>json.dumps\<close> emits them in; the keys of a dict are pairwise distinct.
\<close>

datatype pyfloat = Finite string | NaN | PosInf | NegInf

datatype json =
    JNull
  | JBool bool
  | JInt int
  | JFloat pyfloat
  | JStr string
  | JList "json list"
  | JDict "(string \<times> json) list"

type_synonym pydict = "(string \<times> json) list"

datatype py_error = TypeError | IndexError | KeyError

subsection \<open>Printing numbers\<close>

definition digit_char :: "nat \<Rightarrow> char" where
  "digit_char d = ''0123456789'' ! (d mod 10)"

fun str_nat :: "nat \<Rightarrow> string" where
  "str_nat n = (if n < 10 then [digit_char n] else str_nat (n div 10) @ [digit_char (n mod 10)])"

declare str_nat.simps [simp del]

text \<open>\<^verbatim>\<open>str(i)\<close> for a Python int, which is also what \<^verbatim>\<open>json.dumps\<close> prints.\<close>

definition str_int :: "int \<Rightarrow> string" where
  "str_int i = (if i < 0 then CHR ''-'' # str_nat (nat (- i)) else str_nat (nat i))"

definition float_repr :: "pyfloat \<Rightarrow> string" where
  "float_repr f =
     (case f of Finite r \<Rightarrow> r | NaN \<Rightarrow> ''nan'' | PosInf \<Rightarrow> ''inf'' | NegInf \<Rightarrow> ''-inf'')"

text \<open>\<^verbatim>\<open>json.encoder.floatstr\<close> with the default \<^verbatim>\<open>allow_nan=True\<close>.\<close>

definition json_float :: "pyfloat \<Rightarrow> string" where
  "json_float f =
     (case f of Finite r \<Rightarrow> r | NaN \<Rightarrow> ''NaN'' | PosInf \<Rightarrow> ''Infinity''
      | NegInf \<Rightarrow> ''-Infinity'')"

definition hex_digit :: "nat \<Rightarrow> char" where
  "hex_digit n = ''0123456789abcdef'' ! (n mod 16)"

subsection \<open>Printing strings\<close>

definition backslash :: char where
  "backslash = CHR 0x5C"

definition dquote :: char where
  "dquote = CHR 0x22"

definition squote :: char where
  "squote = CHR 0x27"

text \<open>
  \<^verbatim>\<open>json.encoder.py_encode_basestring_ascii\<close> (\<^verbatim>\<open>ensure_ascii\<close> is on by default): the
  backslash, the double quote and every character outside \<^verbatim>\<open>' '..'~'\<close> are escaped.
\<close>

definition json_escape_char :: "char \<Rightarrow> string" where
  "json_escape_char c =
     (let n = (of_char c :: nat) in
      if c = backslash then [backslash, backslash]
      else if c = dquote then [backslash, dquote]
      else if n = 8 then [backslash, CHR ''b'']
      else if n = 12 then [backslash, CHR ''f'']
      else if n = 10 then [backslash, CHR ''n'']
      else if n = 13 then [backslash, CHR ''r'']
      else if n = 9 then [backslash, CHR ''t'']
      else if 32 \<le> n \<and> n \<le> 126 then [c]
      else [backslash, CHR ''u'', CHR ''0'', CHR ''0'', hex_digit (n div 16), hex_digit n])"

definition json_string :: "string \<Rightarrow> string" where
  "json_string s = dquote # concat (map json_escape_char s) @ [dquote]"

text \<open>
  \<^verbatim>\<open>repr\<close> of a \<^verbatim>\<open>str\<close>: single quotes unless the string has a single quote and no
  double quote; the quote in use and the backslash are escaped; tab, newline and
  carriage return have their letters; every other non-printable character below 256
  (the controls, DEL, 0x80 to 0xA0, 0xAD) is written \<^verbatim>\<open>\xhh\<close>.
\<close>

definition repr_quote :: "string \<Rightarrow> char" where
  "repr_quote s = (if squote \<in> set s \<and> dquote \<notin> set s then dquote else squote)"

definition repr_char :: "char \<Rightarrow> char \<Rightarrow> string" where
  "repr_char q c =
     (let n = (of_char c :: nat) in
      if c = q \<or> c = backslash then [backslash, c]
      else if n = 9 then [backslash, CHR ''t'']
      else if n = 10 then [backslash, CHR ''n'']
      else if n = 13 then [backslash, CHR ''r'']
      else if n < 32 \<or> n = 127 \<or> (128 \<le> n \<and> n \<le> 160) \<or> n = 173
        then [backslash, CHR ''x'', hex_digit (n div 16), hex_digit n]
      else [c])"

definition str_repr :: "string \<Rightarrow> string" where
  "str_repr s = (let q = repr_quote s in q # concat (map (repr_char q) s) @ [q])"

subsection \<open>\<^verbatim>\<open>json.dumps\<close>\<close>

fun join :: "string \<Rightarrow> string list \<Rightarrow> string" where
  "join sep [] = []"
| "join sep [x] = x"
| "join sep (x # y # ys) = x @ sep @ join sep (y # ys)"

text \<open>Python compares strings by code point, a proper prefix being smaller.\<close>

fun str_less :: "string \<Rightarrow> string \<Rightarrow> bool" where
  "str_less [] [] = False"
| "str_less [] (y # ys) = True"
| "str_less (x # xs) [] = False"
| "str_less (x # xs) (y # ys) =
     ((of_char x :: nat) < of_char y \<or> (x = y \<and> str_less xs ys))"

text \<open>\<^verbatim>\<open>sorted(dct.items())\<close>: a stable sort, decided by the keys since they are distinct.\<close>

fun insert_item :: "string \<times> 'a \<Rightarrow> (string \<times> 'a) list \<Rightarrow> (string \<times> 'a) list" where
  "insert_item kv [] = [kv]"
| "insert_item kv (x # xs) =
     (if str_less (fst x) (fst kv) then x # insert_item kv xs else kv # x # xs)"

definition sort_items :: "(string \<times> 'a) list \<Rightarrow> (string \<times> 'a) list" where
  "sort_items kvs = foldr insert_item kvs []"

text \<open>
  \<^verbatim>\<open>json.dumps(o, sort_keys=sk)\<close> with the default separators \<^verbatim>\<open>', '\<close> and \<^verbatim>\<open>': '\<close>.
  The items of a dict are printed in insertion order, or in the order of their keys when
  \<^verbatim>\<open>sort_keys\<close> is set (at every depth). Printing an item does not depend on its
  position, so the items are printed first and ordered next.
\<close>

fun json_dumps :: "bool \<Rightarrow> json \<Rightarrow> string"
  and dumps_elems :: "bool \<Rightarrow> json list \<Rightarrow> string list"
  and dumps_items :: "bool \<Rightarrow> (string \<times> json) list \<Rightarrow> (string \<times> string) list"
where
  "json_dumps sk JNull = ''null''"
| "json_dumps sk (JBool b) = (if b then ''true'' else ''false'')"
| "json_dumps sk (JInt i) = str_int i"
| "json_dumps sk (JFloat f) = json_float f"
| "json_dumps sk (JStr s) = json_string s"
| "json_dumps sk (JList xs) = ''['' @ join '', '' (dumps_elems sk xs) @ '']''"
| "json_dumps sk (JDict kvs) =
     ''{'' @ join '', ''
        (map (\<lambda>(k, v). json_string k @ '': '' @ v)
          (if sk then sort_items (dumps_items sk kvs) else dumps_items sk kvs)) @ ''}''"
| "dumps_elems sk [] = []"
| "dumps_elems sk (x # xs) = json_dumps sk x # dumps_elems sk xs"
| "dumps_items sk [] = []"
| "dumps_items sk ((k, v) # kvs) = (k, json_dumps sk v) # dumps_items sk kvs"

subsection \<open>\<^verbatim>\<open>str\<close> and \<^verbatim>\<open>repr\<close>\<close>

fun py_repr :: "json \<Rightarrow> string"
  and repr_elems :: "json list \<Rightarrow> string list"
  and repr_items :: "(string \<times> json) list \<Rightarrow> string list"
where
  "py_repr JNull = ''None''"
| "py_repr (JBool b) = (if b then ''True'' else ''False'')"
| "py_repr (JInt i) = str_int i"
| "py_repr (JFloat f) = float_repr f"
| "py_repr (JStr s) = str_repr s"
| "py_repr (JList xs) = ''['' @ join '', '' (repr_elems xs) @ '']''"
| "py_repr (JDict kvs) = ''{'' @ join '', '' (repr_items kvs) @ ''}''"
| "repr_elems [] = []"
| "repr_elems (x # xs) = py_repr x # repr_elems xs"
| "repr_items [] = []"
| "repr_items ((k, v) # kvs) = (str_repr k @ '': '' @ py_repr v) # repr_items kvs"

text \<open>What an f-string prints for a value: the string itself, else its \<^verbatim>\<open>repr\<close>.\<close>

definition py_str :: "json \<Rightarrow> string" where
  "py_str v = (case v of JStr s \<Rightarrow> s | _ \<Rightarrow> py_repr v)"

text \<open>\<^verbatim>\<open>str.encode()\<close>: UTF-8, one byte below 128 and two bytes from 128 to 255.\<close>

definition utf8_char :: "char \<Rightarrow> nat list" where
  "utf8_char c =
     (let n = (of_char c :: nat) in
      if n < 128 then [n] else [192 + n div 64, 128 + n mod 64])"

definition encode :: "string \<Rightarrow> nat list" where
  "encode s = concat (map utf8_char s)"

section \<open>SHA-256\<close>

text \<open>
  \<^verbatim>\<open>hashlib.sha256(bytes).hexdigest()\<close>, following FIPS 180-4. Bytes and 32-bit words are
  natural numbers; every addition is reduced modulo \<open>2 ^ 32\<close>.
\<close>

type_synonym u32 = nat

definition add32 :: "u32 \<Rightarrow> u32 \<Rightarrow> u32" where
  "add32 x y = (x + y) mod 4294967296"

text \<open>Rotation to the right: the low \<open>n\<close> bits move to the top of the word.\<close>

definition rotr :: "nat \<Rightarrow> u32 \<Rightarrow> u32" where
  "rotr n x = drop_bit n x + push_bit (32 - n) (take_bit n x)"

definition ch :: "u32 \<Rightarrow> u32 \<Rightarrow> u32 \<Rightarrow> u32" where
  "ch x y z = (x AND y) XOR ((4294967295 - x) AND z)"

definition maj :: "u32 \<Rightarrow> u32 \<Rightarrow> u32 \<Rightarrow> u32" where
  "maj x y z = (x AND y) XOR (x AND z) XOR (y AND z)"

definition bsig0 :: "u32 \<Rightarrow> u32" where
  "bsig0 x = rotr 2 x XOR rotr 13 x XOR rotr 22 x"

definition bsig1 :: "u32 \<Rightarrow> u32" where
  "bsig1 x = rotr 6 x XOR rotr 11 x XOR rotr 25 x"

definition ssig0 :: "u32 \<Rightarrow> u32" where
  "ssig0 x = rotr 7 x XOR rotr 18 x XOR drop_bit 3 x"

definition ssig1 :: "u32 \<Rightarrow> u32" where
  "ssig1 x = rotr 17 x XOR rotr 19 x XOR drop_bit 10 x"

text \<open>
  The round constants: the first 32 bits of the fractional parts of the cube roots of
  the first 64 primes.
\<close>

definition sha256_k :: "u32 list" where
  "sha256_k =
    [1116352408, 1899447441, 3049323471, 3921009573,
     961987163, 1508970993, 2453635748, 2870763221,
     3624381080, 310598401, 607225278, 1426881987,
     1925078388, 2162078206, 2614888103, 3248222580,
     3835390401, 4022224774, 264347078, 604807628,
     770255983, 1249150122, 1555081692, 1996064986,
     2554220882, 2821834349, 2952996808, 3210313671,
     3336571891, 3584528711, 113926993, 338241895,
     666307205, 773529912, 1294757372, 1396182291,
     1695183700, 1986661051, 2177026350, 2456956037,
     2730485921, 2820302411, 3259730800, 3345764771,
     3516065817, 3600352804, 4094571909, 275423344,
     430227734, 506948616, 659060556, 883997877,
     958139571, 1322822218, 1537002063, 1747873779,
     1955562222, 2024104815, 2227730452, 2361852424,
     2428436474, 2756734187, 3204031479, 3329325298]"

text \<open>
  The initial hash value: the first 32 bits of the fractional parts of the square roots
  of the first 8 primes.
\<close>

definition sha256_h0 :: "u32 list" where
  "sha256_h0 =
    [1779033703, 3144134277, 1013904242, 2773480762,
     1359893119, 2600822924, 528734635, 1541459225]"

text \<open>Padding: the byte 0x80, zeros up to 56 modulo 64, the bit length on 8 bytes.\<close>

definition be64 :: "nat \<Rightarrow> nat list" where
  "be64 n = map (\<lambda>i. (n div 256 ^ i) mod 256) [7, 6, 5, 4, 3, 2, 1, 0]"

definition sha256_pad :: "nat list \<Rightarrow> nat list" where
  "sha256_pad m =
     m @ [128] @ replicate ((119 - length m mod 64) mod 64) 0 @ be64 (8 * length m)"

fun be_words :: "nat list \<Rightarrow> u32 list" where
  "be_words (a # b # c # d # r) = (((a * 256 + b) * 256 + c) * 256 + d) # be_words r"
| "be_words r = []"

fun chunks16 :: "u32 list \<Rightarrow> u32 list list" where
  "chunks16 [] = []"
| "chunks16 (w # ws) = take 16 (w # ws) # chunks16 (drop 16 (w # ws))"

text \<open>One round on the working variables \<open>a\<close> to \<open>h\<close>.\<close>

fun step2 :: "u32 \<Rightarrow> u32 \<Rightarrow> u32 list \<Rightarrow> u32 list" where
  "step2 t1 t2 [a, b, c, d, e, f, g, h] = [add32 t1 t2, a, b, c, add32 d t1, e, f, g]"
| "step2 t1 t2 s = s"

fun step :: "u32 list \<Rightarrow> u32 \<Rightarrow> u32 \<Rightarrow> u32 list" where
  "step [a, b, c, d, e, f, g, h] k w =
     step2 (add32 (add32 (add32 (add32 h (bsig1 e)) (ch e f g)) k) w)
       (add32 (bsig0 a) (maj a b c)) [a, b, c, d, e, f, g, h]"
| "step s k w = s"

text \<open>
  The message schedule is kept as a window of sixteen words, oldest first: round \<open>t\<close>
  uses the head \<open>W\<^sub>t\<close> and appends \<open>W\<^bsub>t+16\<^esub>\<close>.
\<close>

definition next_w :: "u32 list \<Rightarrow> u32" where
  "next_w w = add32 (add32 (add32 (ssig1 (w ! 14)) (w ! 9)) (ssig0 (w ! 1))) (w ! 0)"

fun rounds :: "u32 list \<Rightarrow> u32 list \<Rightarrow> u32 list \<Rightarrow> u32 list" where
  "rounds [] w s = s"
| "rounds (k # ks) w s = rounds ks (tl w @ [next_w w]) (step s k (hd w))"

definition compress :: "u32 list \<Rightarrow> u32 list \<Rightarrow> u32 list" where
  "compress s blk = map2 add32 s (rounds sha256_k blk s)"

definition sha256 :: "nat list \<Rightarrow> u32 list" where
  "sha256 m = foldl compress sha256_h0 (chunks16 (be_words (sha256_pad m)))"

definition hex32 :: "u32 \<Rightarrow> string" where
  "hex32 w = map (\<lambda>i. hex_digit (drop_bit (4 * i) w)) [7, 6, 5, 4, 3, 2, 1, 0]"

definition sha256_hex :: "nat list \<Rightarrow> string" where
  "sha256_hex m = concat (map hex32 (sha256 m))"

section \<open>The blockchain\<close>

text \<open>
  The state of a \<^verbatim>\<open>Blockchain\<close> object. A block is a dict. \<^verbatim>\<open>new_block\<close> stores the list
  object \<^verbatim>\<open>current_transactions\<close> in the block and rebinds the attribute to a fresh
  list, so that nothing else refers to the block's list afterwards: lists are values here.
\<close>

record blockchain =
  chain :: "pydict list"
  current_transactions :: "json list"

text \<open>
  \<^verbatim>\<open>new_block\<close>; \<open>now\<close> is what \<^verbatim>\<open>time()\<close> returns during the call. The default
  \<^verbatim>\<open>None\<close> of \<^verbatim>\<open>previous_hash\<close> is \<open>JNull\<close>. The result is the block returned and the
  state after the call.
\<close>

definition new_block :: "pyfloat \<Rightarrow> json \<Rightarrow> json \<Rightarrow> blockchain \<Rightarrow> pydict \<times> blockchain" where
  "new_block now proof previous_hash bc =
     (let block =
        [(''index'', JInt (int (length (chain bc)) + 1)),
         (''proof'', proof),
         (''timestamp'', JFloat now),
         (''transactions'', JList (current_transactions bc)),
         (''previous_hash'', previous_hash)]
      in (block, bc\<lparr>current_transactions := [], chain := chain bc @ [block]\<rparr>))"

text \<open>\<^verbatim>\<open>Blockchain.__init__\<close>: the genesis block.\<close>

definition blockchain_init :: "pyfloat \<Rightarrow> blockchain" where
  "blockchain_init now =
     snd (new_block now (JInt 100) (JInt 1) \<lparr>chain = [], current_transactions = []\<rparr>)"

definition hash :: "pydict \<Rightarrow> string" where
  "hash block = sha256_hex (encode (json_dumps False (JDict block)))"

text \<open>\<^verbatim>\<open>self.chain[-1]\<close> raises \<^verbatim>\<open>IndexError\<close> on an empty chain.\<close>

definition last_block :: "blockchain \<Rightarrow> py_error + pydict" where
  "last_block bc = (if chain bc = [] then Inl IndexError else Inr (last (chain bc)))"

definition valid_proof :: "string \<Rightarrow> json \<Rightarrow> bool" where
  "valid_proof block_string proof =
     (let guess = encode (block_string @ py_str proof);
          guess_hash = sha256_hex guess
      in take 6 guess_hash = ''000000'')"

section \<open>The \<^verbatim>\<open>/mine\<close> endpoint\<close>

text \<open>\<^verbatim>\<open>sub in s\<close> for strings.\<close>

fun contains :: "string \<Rightarrow> string \<Rightarrow> bool" where
  "contains [] sub = (sub = [])"
| "contains (c # cs) sub = (take (length sub) (c # cs) = sub \<or> contains cs sub)"

text \<open>
  \<^verbatim>\<open>k in values\<close> for a string \<open>k\<close>: a key of a dict, an element of a list, a substring
  of a string; any other JSON value is not iterable.
\<close>

definition py_in :: "string \<Rightarrow> json \<Rightarrow> py_error + bool" where
  "py_in k values =
     (case values of
        JDict kvs \<Rightarrow> Inr (k \<in> set (map fst kvs))
      | JList xs \<Rightarrow> Inr (JStr k \<in> set xs)
      | JStr s \<Rightarrow> Inr (contains s k)
      | _ \<Rightarrow> Inl TypeError)"

text \<open>\<^verbatim>\<open>all(k in values for k in required)\<close>, which stops at the first miss.\<close>

fun all_in :: "string list \<Rightarrow> json \<Rightarrow> py_error + bool" where
  "all_in [] values = Inr True"
| "all_in (k # ks) values =
     (case py_in k values of
        Inl e \<Rightarrow> Inl e
      | Inr present \<Rightarrow> if present then all_in ks values else Inr False)"

text \<open>\<^verbatim>\<open>values[k]\<close> for a string \<open>k\<close>: only a dict can be indexed by a string.\<close>

definition py_getitem :: "json \<Rightarrow> string \<Rightarrow> py_error + json" where
  "py_getitem values k =
     (case values of
        JDict kvs \<Rightarrow> (case map_of kvs k of None \<Rightarrow> Inl KeyError | Some v \<Rightarrow> Inr v)
      | _ \<Rightarrow> Inl TypeError)"

text \<open>
  \<^verbatim>\<open>mine()\<close>. \<open>body\<close> is what \<^verbatim>\<open>request.get_json()\<close> returns, or \<open>None\<close> when it raises
  \<^verbatim>\<open>ValueError\<close>; \<open>now\<close> is the clock. The result is the response (its JSON body and
  its status) with the state after the call, or the exception that escapes, in which
  case nothing has been assigned and the state is the one before the call. The source
  reads \<^verbatim>\<open>blockchain.last_block\<close> twice, for the string to validate against and for the
  hash; nothing is assigned in between, so both are the block \<open>lb\<close>.
\<close>

type_synonym response = "json \<times> nat"

definition mine :: "pyfloat \<Rightarrow> json option \<Rightarrow> blockchain \<Rightarrow> py_error + response \<times> blockchain" where
  "mine now body bc =
     (case body of
        None \<Rightarrow> Inr ((JDict [(''message'', JStr ''Non-JSON response'')], 400), bc)
      | Some values \<Rightarrow>
         (case all_in [''proof'', ''id''] values of
            Inl e \<Rightarrow> Inl e
          | Inr complete \<Rightarrow>
             if \<not> complete
             then Inr ((JDict [(''message'', JStr ''Missing values'')], 400), bc)
             else
              (case py_getitem values ''proof'' of
                 Inl e \<Rightarrow> Inl e
               | Inr submitted_proof \<Rightarrow>
                  (case last_block bc of
                     Inl e \<Rightarrow> Inl e
                   | Inr lb \<Rightarrow>
                      if valid_proof (json_dumps True (JDict lb)) submitted_proof
                      then
                        (case new_block now submitted_proof (JStr (hash lb)) bc of
                           (block, bc') \<Rightarrow>
                             Inr ((JDict [(''message'', JStr ''New Block Forged''),
                                          (''block'', JDict block)], 200), bc'))
                      else
                        Inr ((JDict [(''message'',
                                JStr ''Proof invalid or already submitted'')], 200), bc)))))"

text \<open>
  The states the program can be in: the one \<^verbatim>\<open>Blockchain()\<close> builds at import, and the
  state after any request to \<^verbatim>\<open>/mine\<close> that returns (the other endpoints only read).
\<close>

inductive reachable :: "blockchain \<Rightarrow> bool" where
  reachable_init: "reachable (blockchain_init now)"
| reachable_mine: "reachable bc \<Longrightarrow> mine now body bc = Inr (resp, bc') \<Longrightarrow> reachable bc'"

section \<open>Notions the properties are stated with\<close>

text \<open>The number of \<^verbatim>\<open>'0'\<close> characters a hex digest starts with.\<close>

definition leading_zeros :: "string \<Rightarrow> nat" where
  "leading_zeros d = length (takeWhile (\<lambda>c. c = CHR ''0'') d)"

text \<open>The block \<^verbatim>\<open>Blockchain.__init__\<close> creates.\<close>

definition genesis_block :: "pyfloat \<Rightarrow> pydict" where
  "genesis_block now =
     fst (new_block now (JInt 100) (JInt 1) \<lparr>chain = [], current_transactions = []\<rparr>)"

text \<open>A sequence of \<^verbatim>\<open>new_block\<close> calls, each with its clock, proof and previous hash.\<close>

fun new_blocks :: "(pyfloat \<times> json \<times> json) list \<Rightarrow> blockchain \<Rightarrow> blockchain" where
  "new_blocks [] bc = bc"
| "new_blocks ((now, proof, previous_hash) # calls) bc =
     new_blocks calls (snd (new_block now proof previous_hash bc))"

text \<open>
  \<open>evolves bc bc'\<close>: the state \<open>bc'\<close> comes from \<open>bc\<close> by any number of \<^verbatim>\<open>new_block\<close>
  calls and \<^verbatim>\<open>/mine\<close> requests, in any order.
\<close>

inductive evolves :: "blockchain \<Rightarrow> blockchain \<Rightarrow> bool" where
  evolves_refl: "evolves bc bc"
| evolves_new_block:
    "evolves bc bc' \<Longrightarrow> evolves bc (snd (new_block now proof previous_hash bc'))"
| evolves_mine:
    "evolves bc bc' \<Longrightarrow> mine now body bc' = Inr (resp, bc'') \<Longrightarrow> evolves bc bc''"

text \<open>The blocks of the chain are numbered from 1, without gaps.\<close>

definition indexed :: "blockchain \<Rightarrow> bool" where
  "indexed bc =
     (\<forall>i < length (chain bc). map_of (chain bc ! i) ''index'' = Some (JInt (int i + 1)))"


text \<open>The responses of \<^verbatim>\<open>mine()\<close> to a request that parsed.\<close>

definition missing_values :: response where
  "missing_values = (JDict [(''message'', JStr ''Missing values'')], 400)"

definition rejected :: response where
  "rejected = (JDict [(''message'', JStr ''Proof invalid or already submitted'')], 200)"

definition accepted :: "pydict \<Rightarrow> response" where
  "accepted block =
     (JDict [(''message'', JStr ''New Block Forged''), (''block'', JDict block)], 200)"

section \<open>A concrete run\<close>

text \<open>
  A node started at \<open>genesis_time\<close>. Among the proofs a miner can submit against its
  genesis block, 33231932 is accepted and 0 is not.
\<close>

definition genesis_time :: pyfloat where
  "genesis_time = Finite ''1573862400.123456''"

definition mining_time :: pyfloat where
  "mining_time = Finite ''1573862460.654321''"

definition winning_proof :: json where
  "winning_proof = JInt 33231932"

definition losing_proof :: json where
  "losing_proof = JInt 0"

definition request_with :: "json \<Rightarrow> json" where
  "request_with proof =
     JDict [(''proof'', proof), (''id'', JStr ''5f0d8a7e2b6c4c19a3e1d2f4b6a8c0e2'')]"

text \<open>The state after the winning proof has been submitted to the fresh node.\<close>

definition mined_once :: blockchain where
  "mined_once =
     snd (new_block mining_time winning_proof
            (JStr (hash (genesis_block genesis_time))) (blockchain_init genesis_time))"

text \<open>The genesis block of this node, built with its keys in another order.\<close>

definition reordered_genesis :: pydict where
  "reordered_genesis =
     [(''index'', JInt 1),
      (''previous_hash'', JInt 1),
      (''proof'', JInt 100),
      (''timestamp'', JFloat genesis_time),
      (''transactions'', JList [])]"

section \<open>Evaluation\<close>

text \<open>
  Equations that let the simplifier compute a digest: a sum of two words needs at most
  one subtraction, and a run of padding zeros is unfolded one at a time.
\<close>

lemma add32_eval:
  "add32 x y = (if x + y < 4294967296 then x + y
                else if x + y < 8589934592 then x + y - 4294967296
                else (x + y) mod 4294967296)"
  by (simp add: add32_def mod_if le_mod_geq)

lemma replicate_numeral: "replicate (numeral k) x = x # replicate (pred_numeral k) x"
  by (simp add: numeral_eq_Suc)

lemmas sha_eval = sha256_hex_def sha256_def sha256_pad_def be64_def compress_def
  sha256_k_def sha256_h0_def next_w_def bsig0_def bsig1_def ssig0_def ssig1_def
  rotr_def ch_def maj_def hex32_def hex_digit_def replicate_numeral add32_eval
  encode_def utf8_char_def

lemmas dumps_eval = Let_def sort_items_def str_int_def str_nat.simps digit_char_def
  json_string_def json_escape_char_def json_float_def py_str_def backslash_def dquote_def

text \<open>The test vector of FIPS 180-4 for the one-block message \<^verbatim>\<open>abc\<close>.\<close>

lemma sha256_abc:
  "sha256_hex (encode ''abc'') =
     ''ba7816bf8f01cfea414140de5dae2223b00361a396177a9cb410ff61f20015ad''"
  by (simp add: sha_eval)

text \<open>And for a message that takes two blocks.\<close>

lemma sha256_two_blocks:
  "sha256_hex (encode ''abcdbcdecdefdefgefghfghighijhijkijkljklmklmnlmnomnopnopq'') =
     ''248d6a61d20638b8e5c026930c3e6039a33ce45964ff2167f6ecedd419db06c1''"
  by (simp add: sha_eval)

lemma new_block_eq:
  "new_block now p previous_hash bc =
     ([(''index'', JInt (int (length (chain bc)) + 1)), (''proof'', p),
       (''timestamp'', JFloat now), (''transactions'', JList (current_transactions bc)),
       (''previous_hash'', previous_hash)],
      \<lparr>chain = chain bc @
         [[(''index'', JInt (int (length (chain bc)) + 1)), (''proof'', p),
           (''timestamp'', JFloat now), (''transactions'', JList (current_transactions bc)),
           (''previous_hash'', previous_hash)]],
       current_transactions = []\<rparr>)"
  by (simp add: new_block_def Let_def)

lemma genesis_block_eq:
  "genesis_block now =
     [(''index'', JInt 1), (''proof'', JInt 100), (''timestamp'', JFloat now),
      (''transactions'', JList []), (''previous_hash'', JInt 1)]"
  by (simp add: genesis_block_def new_block_eq)

lemma blockchain_init_eq:
  "blockchain_init now = \<lparr>chain = [genesis_block now], current_transactions = []\<rparr>"
  by (simp add: blockchain_init_def genesis_block_def new_block_eq)

lemma chain_new_block:
  "chain (snd (new_block now p previous_hash bc)) =
     chain bc @ [fst (new_block now p previous_hash bc)]"
  by (simp add: new_block_eq)

text \<open>The digests of the concrete run.\<close>

lemma winning_digest:
  "sha256_hex (encode (json_dumps True (JDict (genesis_block genesis_time)) @ py_str winning_proof))
     = ''00000002b633419cde33bce9fbcdbb5f982b988942d29293f2c36ae7ce36779c''"
  by (simp add: genesis_block_eq genesis_time_def winning_proof_def dumps_eval sha_eval)

lemma losing_digest:
  "sha256_hex (encode (json_dumps True (JDict (genesis_block genesis_time)) @ py_str losing_proof))
     = ''410c02afe07d70ec6806a130c2becda4a439c1b5546d94c5813dd5e37deeeb82''"
  by (simp add: genesis_block_eq genesis_time_def losing_proof_def dumps_eval sha_eval)

lemma genesis_hash:
  "hash (genesis_block genesis_time) =
     ''896e90af28eba97ccfd4f284f9812f16d6ebd429de9057a4c2a2c03e325ec418''"
  by (simp add: hash_def genesis_block_eq genesis_time_def dumps_eval sha_eval)

lemma reordered_genesis_hash:
  "hash reordered_genesis =
     ''fdb2ff451962029b2ec7146baddda5ab18a6bd2d80d7d1a7466938307644ade0''"
  by (simp add: hash_def reordered_genesis_def genesis_time_def dumps_eval sha_eval)

lemma winning_proof_valid:
  "valid_proof (json_dumps True (JDict (genesis_block genesis_time))) winning_proof"
  unfolding valid_proof_def Let_def winning_digest by simp

lemma losing_proof_invalid:
  "\<not> valid_proof (json_dumps True (JDict (genesis_block genesis_time))) losing_proof"
  unfolding valid_proof_def Let_def losing_digest by simp

section \<open>Proof of work\<close>

lemma take_eq_replicate_iff:
  "take n xs = replicate n a \<longleftrightarrow> n \<le> length (takeWhile (\<lambda>c. c = a) xs)"
proof (induction xs arbitrary: n)
  case Nil
  then show ?case by auto
next
  case (Cons x xs)
  show ?case
  proof (cases n)
    case 0
    then show ?thesis by simp
  next
    case (Suc m)
    with Cons.IH [of m] show ?thesis by auto
  qed
qed

text \<open>
  C1, as amended. \<^verbatim>\<open>valid_proof(s, p)\<close> is true exactly when the SHA-256 hex digest of
  \<open>s\<close> followed by the string form of \<open>p\<close> starts with at least six \<^verbatim>\<open>'0'\<close>
  characters: the code compares the first six characters of the digest with
  \<^verbatim>\<open>'000000'\<close> and does not look at the seventh.
\<close>

theorem valid_proof_iff_at_least_six_zeros:
  "valid_proof block_string p \<longleftrightarrow>
     6 \<le> leading_zeros (sha256_hex (encode (block_string @ py_str p)))"
proof -
  have "''000000'' = replicate 6 (CHR ''0'')"
    by (simp add: numeral_eq_Suc)
  then show ?thesis
    unfolding valid_proof_def Let_def leading_zeros_def
    by (simp only: take_eq_replicate_iff)
qed

text \<open>
  C1 as stated asks for exactly six leading zeros. Against the genesis block of the
  concrete run, the digest for the proof 33231932 starts with seven, and the proof is
  accepted.
\<close>

theorem seven_leading_zeros_accepted:
  "valid_proof (json_dumps True (JDict (genesis_block genesis_time))) winning_proof \<and>
   leading_zeros (sha256_hex (encode
     (json_dumps True (JDict (genesis_block genesis_time)) @ py_str winning_proof))) = 7 \<and>
   \<not> (valid_proof (json_dumps True (JDict (genesis_block genesis_time))) winning_proof \<longleftrightarrow>
      leading_zeros (sha256_hex (encode
        (json_dumps True (JDict (genesis_block genesis_time)) @ py_str winning_proof))) = 6)"
  unfolding valid_proof_def Let_def winning_digest leading_zeros_def
  by simp

section \<open>Building blocks\<close>

text \<open>
  C4. Right after initialization the chain is the genesis block alone, with index 1,
  previous hash 1, proof 100 and no transactions, and the buffer of pending transactions
  is empty.
\<close>

theorem genesis_state:
  "chain (blockchain_init now) = [genesis_block now] \<and>
   map_of (genesis_block now) ''index'' = Some (JInt 1) \<and>
   map_of (genesis_block now) ''previous_hash'' = Some (JInt 1) \<and>
   map_of (genesis_block now) ''proof'' = Some (JInt 100) \<and>
   map_of (genesis_block now) ''transactions'' = Some (JList []) \<and>
   current_transactions (blockchain_init now) = []"
  by (simp add: blockchain_init_eq genesis_block_eq)

text \<open>
  C6. After \<^verbatim>\<open>new_block\<close> the buffer is empty, the new block holds what the buffer
  held before the call, the chain has grown by this block only, and a block built next
  gets an empty list: the transactions went to one block and to no other.
\<close>

theorem new_block_moves_buffer:
  "current_transactions (snd (new_block now p previous_hash bc)) = [] \<and>
   map_of (fst (new_block now p previous_hash bc)) ''transactions'' =
     Some (JList (current_transactions bc)) \<and>
   chain (snd (new_block now p previous_hash bc)) =
     chain bc @ [fst (new_block now p previous_hash bc)] \<and>
   map_of (fst (new_block now' p' previous_hash'
                  (snd (new_block now p previous_hash bc)))) ''transactions'' =
     Some (JList [])"
  by (simp add: new_block_eq)

lemma new_block_index:
  "map_of (fst (new_block now p previous_hash bc)) ''index'' =
     Some (JInt (int (length (chain bc)) + 1))"
  by (simp add: new_block_eq)

lemma indexed_new_block:
  assumes "indexed bc"
  shows "indexed (snd (new_block now p previous_hash bc))"
  unfolding indexed_def
proof (intro allI impI)
  fix i
  assume "i < length (chain (snd (new_block now p previous_hash bc)))"
  then have "i < length (chain bc) \<or> i = length (chain bc)"
    by (auto simp: chain_new_block)
  then show "map_of (chain (snd (new_block now p previous_hash bc)) ! i) ''index'' =
      Some (JInt (int i + 1))"
  proof
    assume "i < length (chain bc)"
    with assms show ?thesis
      by (simp add: chain_new_block nth_append indexed_def)
  next
    assume "i = length (chain bc)"
    then show ?thesis
      by (simp add: chain_new_block new_block_index)
  qed
qed

lemma indexed_new_blocks: "indexed bc \<Longrightarrow> indexed (new_blocks calls bc)"
  by (induction calls bc rule: new_blocks.induct) (simp_all add: indexed_new_block)

lemma indexed_init: "indexed (blockchain_init now)"
  by (simp add: indexed_def blockchain_init_eq genesis_block_eq)

text \<open>
  C5. After any sequence of \<^verbatim>\<open>new_block\<close> calls on the initialized state, the block at
  position \<open>i\<close> of the chain has index \<open>i + 1\<close>; and every block is built with the
  length of the chain plus one as its index.
\<close>

theorem indices_count_from_one:
  "(i < length (chain (new_blocks calls (blockchain_init now))) \<longrightarrow>
      map_of (chain (new_blocks calls (blockchain_init now)) ! i) ''index'' =
        Some (JInt (int i + 1))) \<and>
   map_of (fst (new_block now' p previous_hash bc)) ''index'' =
     Some (JInt (int (length (chain bc)) + 1))"
  using indexed_new_blocks [OF indexed_init, of calls now]
  by (simp add: indexed_def new_block_index)

text \<open>Two calls after the genesis block: the third block has index 3.\<close>

theorem indices_count_from_one_witness:
  "2 < length (chain (new_blocks
       [(mining_time, winning_proof, JStr ''ab''), (mining_time, losing_proof, JNull)]
       (blockchain_init genesis_time))) \<and>
   map_of (chain (new_blocks
       [(mining_time, winning_proof, JStr ''ab''), (mining_time, losing_proof, JNull)]
       (blockchain_init genesis_time)) ! 2) ''index'' = Some (JInt 3) \<and>
   map_of (fst (new_block mining_time losing_proof JNull (blockchain_init genesis_time)))
     ''index'' = Some (JInt 2)"
  using indices_count_from_one [of 2
      "[(mining_time, winning_proof, JStr ''ab''), (mining_time, losing_proof, JNull)]"
      genesis_time mining_time losing_proof JNull "blockchain_init genesis_time"]
  by (simp add: new_block_eq blockchain_init_eq)

section \<open>Mining\<close>

text \<open>A request with both fields, on a chain that has a last block.\<close>

lemma mine_complete:
  assumes "all_in [''proof'', ''id''] values = Inr True"
    and "py_getitem values ''proof'' = Inr p"
    and "chain bc \<noteq> []"
  shows "mine now (Some values) bc =
     (if valid_proof (json_dumps True (JDict (last (chain bc)))) p
      then Inr (accepted (fst (new_block now p (JStr (hash (last (chain bc)))) bc)),
                snd (new_block now p (JStr (hash (last (chain bc)))) bc))
      else Inr (rejected, bc))"
  unfolding mine_def using assms
  by (simp add: last_block_def accepted_def rejected_def split_beta
      del: all_in.simps json_dumps.simps)

text \<open>
  A request that returns leaves the state as it was or appends one block, built on the
  hash of the last one.
\<close>

lemma mine_cases:
  assumes "mine now body bc = Inr (resp, bc')"
  shows "bc' = bc \<or>
         (\<exists>p. chain bc \<noteq> [] \<and>
            bc' = snd (new_block now p (JStr (hash (last (chain bc)))) bc))"
  using assms unfolding mine_def last_block_def
  by (auto split: option.splits sum.splits if_splits
      simp add: split_beta simp del: all_in.simps json_dumps.simps)

lemma reachable_nonempty: "reachable bc \<Longrightarrow> chain bc \<noteq> []"
proof (induction rule: reachable.induct)
  case (reachable_init now)
  show ?case by (simp add: blockchain_init_eq)
next
  case (reachable_mine bc now body resp bc')
  from mine_cases [OF reachable_mine.hyps(2)] reachable_mine.IH show ?case
    by (auto simp: chain_new_block)
qed




lemma request_with_complete:
  "all_in [''proof'', ''id''] (request_with p) = Inr True"
  "py_getitem (request_with p) ''proof'' = Inr p"
  by (simp_all add: request_with_def py_in_def py_getitem_def)

lemma mine_winning:
  "mine mining_time (Some (request_with winning_proof)) (blockchain_init genesis_time) =
     Inr (accepted (fst (new_block mining_time winning_proof
            (JStr (hash (genesis_block genesis_time))) (blockchain_init genesis_time))),
          mined_once)"
proof -
  have "chain (blockchain_init genesis_time) \<noteq> []"
      and "last (chain (blockchain_init genesis_time)) = genesis_block genesis_time"
    by (simp_all add: blockchain_init_eq)
  with mine_complete [OF request_with_complete, where bc = "blockchain_init genesis_time"
      and p = winning_proof and now = mining_time] winning_proof_valid
  show ?thesis
    by (simp add: mined_once_def del: json_dumps.simps)
qed


lemma chain_mined_once:
  "chain mined_once =
     [genesis_block genesis_time,
      [(''index'', JInt 2), (''proof'', winning_proof), (''timestamp'', JFloat mining_time),
       (''transactions'', JList []),
       (''previous_hash'', JStr (hash (genesis_block genesis_time)))]]"
  by (simp add: mined_once_def new_block_eq blockchain_init_eq)


text \<open>
  C7. When the submitted proof fails validation against the last block, \<^verbatim>\<open>mine()\<close>
  answers with the rejection, which no acceptance equals, and the state (chain and
  pending transactions) is the one before the call.
\<close>

theorem invalid_proof_rejected:
  assumes "reachable bc"
    and "all_in [''proof'', ''id''] values = Inr True"
    and "py_getitem values ''proof'' = Inr p"
    and "\<not> valid_proof (json_dumps True (JDict (last (chain bc)))) p"
  shows "mine now (Some values) bc = Inr (rejected, bc) \<and> rejected \<noteq> accepted block"
  using mine_complete [OF assms(2,3) reachable_nonempty [OF assms(1)], of now] assms(4)
  by (simp add: rejected_def accepted_def del: json_dumps.simps)

text \<open>The proof 0 against the fresh node: rejected, the chain still has one block.\<close>

theorem invalid_proof_rejected_witness:
  "reachable (blockchain_init genesis_time) \<and>
   all_in [''proof'', ''id''] (request_with losing_proof) = Inr True \<and>
   py_getitem (request_with losing_proof) ''proof'' = Inr losing_proof \<and>
   \<not> valid_proof (json_dumps True (JDict (last (chain (blockchain_init genesis_time)))))
       losing_proof \<and>
   mine mining_time (Some (request_with losing_proof)) (blockchain_init genesis_time) =
     Inr (rejected, blockchain_init genesis_time) \<and>
   length (chain (blockchain_init genesis_time)) = 1"
proof -
  have inv: "\<not> valid_proof (json_dumps True (JDict (last (chain (blockchain_init genesis_time)))))
       losing_proof"
    using losing_proof_invalid by (simp add: blockchain_init_eq del: json_dumps.simps)
  have len: "length (chain (blockchain_init genesis_time)) = 1"
    by (simp add: blockchain_init_eq)
  from invalid_proof_rejected [OF reachable_init request_with_complete inv,
      where now = mining_time and block = "[]"]
  have "mine mining_time (Some (request_with losing_proof)) (blockchain_init genesis_time) =
     Inr (rejected, blockchain_init genesis_time)"
    by blast
  with inv len reachable_init [of genesis_time] request_with_complete [of losing_proof]
  show ?thesis
    by blast
qed

lemma evolves_extends: "evolves bc bc' \<Longrightarrow> \<exists>ext. chain bc' = chain bc @ ext"
proof (induction rule: evolves.induct)
  case (evolves_refl bc)
  show ?case by simp
next
  case (evolves_new_block bc bc' now p previous_hash)
  then show ?case by (auto simp: chain_new_block)
next
  case (evolves_mine bc bc' now body resp bc'')
  from mine_cases [OF evolves_mine.hyps(2)] evolves_mine.IH show ?case
    by (auto simp: chain_new_block)
qed

text \<open>
  C8. Whatever \<^verbatim>\<open>new_block\<close> calls and mining requests follow, the blocks already in
  the chain stay where they are and as they are, transactions included: the chain only
  grows at its end.
\<close>

theorem chain_is_append_only:
  assumes "evolves bc bc'"
  shows "take (length (chain bc)) (chain bc') = chain bc \<and>
         (\<forall>i < length (chain bc). chain bc' ! i = chain bc ! i) \<and>
         length (chain bc) \<le> length (chain bc')"
  using evolves_extends [OF assms] by (auto simp: nth_append)

lemma evolves_mined_once: "evolves (blockchain_init genesis_time) mined_once"
  by (rule evolves_mine [OF evolves_refl mine_winning])

text \<open>Mining the second block leaves the genesis block in place.\<close>

theorem chain_is_append_only_witness:
  "evolves (blockchain_init genesis_time) mined_once \<and>
   take (length (chain (blockchain_init genesis_time))) (chain mined_once) =
     chain (blockchain_init genesis_time) \<and>
   (0::nat) < length (chain (blockchain_init genesis_time)) \<and>
   chain mined_once ! 0 = chain (blockchain_init genesis_time) ! 0 \<and>
   length (chain (blockchain_init genesis_time)) < length (chain mined_once)"
  using chain_is_append_only [OF evolves_mined_once] evolves_mined_once
  by (simp add: chain_mined_once blockchain_init_eq)

text \<open>
  A JSON object that lacks the proof or the submitter id is answered with status 400 and
  the message \<^verbatim>\<open>Missing values\<close>, and the state is the one before the call.
\<close>

lemma object_without_field_is_client_error:
  assumes "''proof'' \<notin> set (map fst kvs) \<or> ''id'' \<notin> set (map fst kvs)"
  shows "mine now (Some (JDict kvs)) bc = Inr (missing_values, bc)"
  using assms by (auto simp: mine_def py_in_def missing_values_def)

text \<open>
  C9 does not hold of the code. A request whose body is JSON but not an object has
  neither the proof nor the submitter id. For the bodies \<^verbatim>\<open>null\<close>, a number or a
  boolean, the test \<^verbatim>\<open>k in values\<close> raises \<^verbatim>\<open>TypeError\<close>; for the list
  \<^verbatim>\<open>["proof", "id"]\<close> the test passes and \<^verbatim>\<open>values['proof']\<close> raises it. In each case
  the exception escapes \<^verbatim>\<open>mine()\<close> instead of the 400 response that the check for
  missing values is there to give.
\<close>

theorem body_without_fields_raises_type_error:
  "mine now (Some JNull) bc = Inl TypeError \<and>
   mine now (Some (JInt n)) bc = Inl TypeError \<and>
   mine now (Some (JFloat f)) bc = Inl TypeError \<and>
   mine now (Some (JBool b)) bc = Inl TypeError \<and>
   mine now (Some (JList [JStr ''proof'', JStr ''id''])) bc = Inl TypeError"
  by (simp add: mine_def py_in_def py_getitem_def)

section \<open>The two serializations of a block\<close>

text \<open>Every block in a reachable state was built by \<^verbatim>\<open>new_block\<close>.\<close>

lemma reachable_last_built:
  "reachable bc \<Longrightarrow>
     \<exists>now p previous_hash other. last (chain bc) = fst (new_block now p previous_hash other)"
proof (induction rule: reachable.induct)
  case (reachable_init now)
  have "last (chain (blockchain_init now)) =
      fst (new_block now (JInt 100) (JInt 1) \<lparr>chain = [], current_transactions = []\<rparr>)"
    by (simp add: blockchain_init_eq genesis_block_def)
  then show ?case by blast
next
  case (reachable_mine bc now body resp bc')
  from mine_cases [OF reachable_mine.hyps(2)] show ?case
  proof
    assume "bc' = bc"
    with reachable_mine.IH show ?thesis by simp
  next
    assume "\<exists>p. chain bc \<noteq> [] \<and>
        bc' = snd (new_block now p (JStr (hash (last (chain bc)))) bc)"
    then obtain p where "bc' = snd (new_block now p (JStr (hash (last (chain bc)))) bc)"
      by blast
    then have "last (chain bc') = fst (new_block now p (JStr (hash (last (chain bc)))) bc)"
      by (simp add: chain_new_block)
    then show ?thesis by blast
  qed
qed

text \<open>The two strings part after \<^verbatim>\<open>"index": n, "pr\<close>.\<close>

lemma dumps_new_block_differ:
  "json_dumps True (JDict (fst (new_block now p previous_hash bc))) \<noteq>
     json_dumps False (JDict (fst (new_block now p previous_hash bc)))"
  by (simp add: new_block_eq sort_items_def json_string_def json_escape_char_def Let_def
      backslash_def dquote_def)

lemma keys_new_block:
  "map fst (sort_items (fst (new_block now p previous_hash bc))) =
     [''index'', ''previous_hash'', ''proof'', ''timestamp'', ''transactions'']"
  "map fst (fst (new_block now p previous_hash bc)) =
     [''index'', ''proof'', ''timestamp'', ''transactions'', ''previous_hash'']"
  by (simp_all add: new_block_eq sort_items_def)

text \<open>
  C10. In every reachable state, for a request that carries both fields: \<^verbatim>\<open>mine()\<close>
  accepts the submitted proof exactly when \<^verbatim>\<open>valid_proof\<close> holds of it against
  \<^verbatim>\<open>json.dumps(last_block, sort_keys=True)\<close>, and the block it then appends has as its
  previous hash the SHA-256 digest of \<^verbatim>\<open>json.dumps(last_block)\<close>, which is what
  \<^verbatim>\<open>hash\<close> computes; and the two strings differ. They differ for every block
  \<^verbatim>\<open>new_block\<close> builds: its keys are inserted in the order index, proof, timestamp,
  transactions, previous_hash and sorted into index, previous_hash, proof, timestamp,
  transactions.
\<close>

theorem validated_string_is_not_hashed_string:
  assumes "reachable bc"
    and "all_in [''proof'', ''id''] values = Inr True"
    and "py_getitem values ''proof'' = Inr p"
  shows
    "mine now (Some values) bc =
       (if valid_proof (json_dumps True (JDict (last (chain bc)))) p
        then Inr (accepted (fst (new_block now p
                    (JStr (sha256_hex (encode (json_dumps False (JDict (last (chain bc)))))))
                    bc)),
                  snd (new_block now p
                    (JStr (sha256_hex (encode (json_dumps False (JDict (last (chain bc)))))))
                    bc))
        else Inr (rejected, bc)) \<and>
     map_of (fst (new_block now p
               (JStr (sha256_hex (encode (json_dumps False (JDict (last (chain bc)))))))
               bc)) ''previous_hash'' =
       Some (JStr (sha256_hex (encode (json_dumps False (JDict (last (chain bc))))))) \<and>
     hash (last (chain bc)) = sha256_hex (encode (json_dumps False (JDict (last (chain bc))))) \<and>
     json_dumps True (JDict (last (chain bc))) \<noteq> json_dumps False (JDict (last (chain bc))) \<and>
     json_dumps True (JDict (fst (new_block now' p' previous_hash' other))) \<noteq>
       json_dumps False (JDict (fst (new_block now' p' previous_hash' other))) \<and>
     map fst (sort_items (fst (new_block now' p' previous_hash' other))) =
       [''index'', ''previous_hash'', ''proof'', ''timestamp'', ''transactions''] \<and>
     map fst (fst (new_block now' p' previous_hash' other)) =
       [''index'', ''proof'', ''timestamp'', ''transactions'', ''previous_hash'']"
proof -
  let ?lb = "last (chain bc)"
  have hash_eq: "hash ?lb = sha256_hex (encode (json_dumps False (JDict ?lb)))"
    by (simp only: hash_def)
  have run: "mine now (Some values) bc =
       (if valid_proof (json_dumps True (JDict ?lb)) p
        then Inr (accepted (fst (new_block now p (JStr (hash ?lb)) bc)),
                  snd (new_block now p (JStr (hash ?lb)) bc))
        else Inr (rejected, bc))"
    by (rule mine_complete [OF assms(2,3) reachable_nonempty [OF assms(1)]])
  have stored: "map_of (fst (new_block now p (JStr (hash ?lb)) bc)) ''previous_hash'' =
      Some (JStr (hash ?lb))"
    by (simp add: new_block_eq)
  from reachable_last_built [OF assms(1)]
  have differ: "json_dumps True (JDict ?lb) \<noteq> json_dumps False (JDict ?lb)"
    using dumps_new_block_differ by metis
  from run stored differ show ?thesis
    unfolding hash_eq
    by (simp only: dumps_new_block_differ keys_new_block simp_thms)
qed

text \<open>
  The winning proof on the fresh node: it is valid against the sorted string, the mined
  block stores the digest of the unsorted string of the genesis block as its previous
  hash, and the two strings differ.
\<close>

theorem validated_string_is_not_hashed_string_witness:
  "reachable (blockchain_init genesis_time) \<and>
   all_in [''proof'', ''id''] (request_with winning_proof) = Inr True \<and>
   py_getitem (request_with winning_proof) ''proof'' = Inr winning_proof \<and>
   valid_proof (json_dumps True (JDict (genesis_block genesis_time))) winning_proof \<and>
   mine mining_time (Some (request_with winning_proof)) (blockchain_init genesis_time) =
     Inr (accepted (last (chain mined_once)), mined_once) \<and>
   map_of (last (chain mined_once)) ''previous_hash'' =
     Some (JStr ''896e90af28eba97ccfd4f284f9812f16d6ebd429de9057a4c2a2c03e325ec418'') \<and>
   sha256_hex (encode (json_dumps False (JDict (genesis_block genesis_time)))) =
     ''896e90af28eba97ccfd4f284f9812f16d6ebd429de9057a4c2a2c03e325ec418'' \<and>
   json_dumps True (JDict (genesis_block genesis_time)) \<noteq>
     json_dumps False (JDict (genesis_block genesis_time))"
proof -
  have lb: "last (chain (blockchain_init genesis_time)) = genesis_block genesis_time"
    by (simp add: blockchain_init_eq)
  have digest: "sha256_hex (encode (json_dumps False (JDict (genesis_block genesis_time)))) =
      ''896e90af28eba97ccfd4f284f9812f16d6ebd429de9057a4c2a2c03e325ec418''"
    using genesis_hash by (simp only: hash_def)
  have mined: "mined_once = snd (new_block mining_time winning_proof
      (JStr ''896e90af28eba97ccfd4f284f9812f16d6ebd429de9057a4c2a2c03e325ec418'')
      (blockchain_init genesis_time))"
    by (simp only: mined_once_def genesis_hash)
  from validated_string_is_not_hashed_string
    [OF reachable_init [of genesis_time] request_with_complete [of winning_proof],
      where now = mining_time and now' = genesis_time and p' = "JInt 100"
        and previous_hash' = "JInt 1"
        and other = "\<lparr>chain = [], current_transactions = []\<rparr>"]
    winning_proof_valid
  show ?thesis
    unfolding lb digest
    by (simp only: mined chain_new_block last_snoc reachable_init request_with_complete
        winning_proof_valid if_True simp_thms)
qed

text \<open>
  C3 does not hold of the code. \<^verbatim>\<open>hash\<close> digests \<^verbatim>\<open>json.dumps(block)\<close>, which follows
  the insertion order of the dict: the genesis block of the concrete run and the dict
  with the same keys and values inserted in another order have different hashes.
\<close>

theorem hash_depends_on_key_order:
  "map_of reordered_genesis = map_of (genesis_block genesis_time) \<and>
   distinct (map fst reordered_genesis) \<and>
   distinct (map fst (genesis_block genesis_time)) \<and>
   hash reordered_genesis \<noteq> hash (genesis_block genesis_time)"
proof -
  have "map_of reordered_genesis = map_of (genesis_block genesis_time)"
    by (rule ext) (simp add: reordered_genesis_def genesis_block_eq)
  moreover have "hash reordered_genesis \<noteq> hash (genesis_block genesis_time)"
    unfolding genesis_hash reordered_genesis_hash by simp
  ultimately show ?thesis
    by (simp add: reordered_genesis_def genesis_block_eq)
qed

end
